theory Spec2Isabelle
  imports Main
begin

section \<open>Python values and library functions used by Lambda/lf1.py\<close>

text \<open>
  Python's \<open>str\<close> is a sequence of code points. It is modelled by \<open>string\<close>, whose
  characters are the code points below 256; \<open>length\<close> is Python's \<open>len\<close>.
  An optional text (\<open>None\<close> or a \<open>str\<close>) is a \<open>string option\<close>.
  Exceptions are values: a function that can raise returns \<open>error + 'a\<close>, with
  \<open>Inl\<close> for the exception raised.
\<close>

datatype error =
    KeyError string
  | ValueError
  | OverflowError
  | NameError string
  | Exception string

definition bindE :: "error + 'a \<Rightarrow> ('a \<Rightarrow> error + 'b) \<Rightarrow> error + 'b" where
  "bindE m f = (case m of Inl e \<Rightarrow> Inl e | Inr x \<Rightarrow> f x)"

text \<open>\<open>d[k]\<close> on a dictionary: a missing key raises \<open>KeyError\<close>.\<close>

definition getitem :: "(string \<rightharpoonup> 'v) \<Rightarrow> string \<Rightarrow> error + 'v" where
  "getitem d k = (case d k of None \<Rightarrow> Inl (KeyError k) | Some v \<Rightarrow> Inr v)"

text \<open>\<open>'{}'.format(v)\<close> for an optional text: \<open>None\<close> is printed as \<open>None\<close>.\<close>

definition format_arg :: "string option \<Rightarrow> string" where
  "format_arg v = (case v of None \<Rightarrow> ''None'' | Some s \<Rightarrow> s)"

text \<open>
  \<open>str.lower\<close> on code points below 256: the ASCII capitals and the Latin-1 capitals
  (0xC0 to 0xDE, the multiplication sign 0xD7 apart) move up by 32.
\<close>

definition lower_char :: "char \<Rightarrow> char" where
  "lower_char c =
     (let n = (of_char c :: nat) in
      if (65 \<le> n \<and> n \<le> 90) \<or> (192 \<le> n \<and> n \<le> 214) \<or> (216 \<le> n \<and> n \<le> 222)
      then char_of (n + 32) else c)"

definition lower :: "string \<Rightarrow> string" where
  "lower s = map lower_char s"

text \<open>\<open>s.split(sep)\<close> with a one-character separator; the result is never empty.\<close>

fun split :: "char \<Rightarrow> string \<Rightarrow> string list" where
  "split sep [] = [[]]"
| "split sep (c # cs) =
     (if c = sep then [] # split sep cs
      else (case split sep cs of
              p # ps \<Rightarrow> (c # p) # ps
            | [] \<Rightarrow> [[c]]))"

subsection \<open>\<open>int(str)\<close> and \<open>parse_int\<close>\<close>

text \<open>
  \<open>int(s)\<close> in base ten: white space is stripped at both ends (tab, line feed,
  vertical tab, form feed, carriage return, space, and below 256 also 0x85 and 0xA0),
  then an optional sign, then decimal digits, where one underscore may stand between two
  digits. Anything else raises \<open>ValueError\<close>, here \<open>None\<close>.
\<close>

definition is_space :: "char \<Rightarrow> bool" where
  "is_space c = ((of_char c :: nat) \<in> {9, 10, 11, 12, 13, 32, 133, 160})"

definition is_digit :: "char \<Rightarrow> bool" where
  "is_digit c = (48 \<le> (of_char c :: nat) \<and> (of_char c :: nat) \<le> 57)"

definition digit_val :: "char \<Rightarrow> int" where
  "digit_val c = int (of_char c) - 48"

definition strip :: "string \<Rightarrow> string" where
  "strip s = rev (dropWhile is_space (rev (dropWhile is_space s)))"

fun digits :: "int \<Rightarrow> string \<Rightarrow> int option" where
  "digits acc [] = Some acc"
| "digits acc [c] = (if is_digit c then Some (10 * acc + digit_val c) else None)"
| "digits acc (c # d # cs) =
     (if is_digit c then digits (10 * acc + digit_val c) (d # cs)
      else if c = CHR ''_'' \<and> is_digit d then digits (10 * acc + digit_val d) cs
      else None)"

definition unsigned :: "string \<Rightarrow> int option" where
  "unsigned s =
     (case s of
        [] \<Rightarrow> None
      | c # cs \<Rightarrow> if is_digit c then digits (digit_val c) cs else None)"

definition py_int :: "string \<Rightarrow> int option" where
  "py_int s =
     (case strip s of
        [] \<Rightarrow> None
      | c # cs \<Rightarrow>
          if c = CHR ''-'' then map_option uminus (unsigned cs)
          else if c = CHR ''+'' then unsigned cs
          else unsigned (c # cs))"

text \<open>
  \<open>parse_int\<close> returns an integer, or the float \<open>nan\<close> when \<open>int\<close> raises
  \<open>ValueError\<close>. \<open>math.isnan\<close> is false on an integer, and every comparison of
  \<open>nan\<close> with a number is false.
\<close>

datatype number = PInt int | NaN

definition parse_int :: "string \<Rightarrow> number" where
  "parse_int n = (case py_int n of Some i \<Rightarrow> PInt i | None \<Rightarrow> NaN)"

fun isnan :: "number \<Rightarrow> bool" where
  "isnan NaN = True"
| "isnan (PInt i) = False"

fun num_less :: "number \<Rightarrow> int \<Rightarrow> bool" where
  "num_less (PInt i) k = (i < k)"
| "num_less NaN k = False"

fun num_greater :: "number \<Rightarrow> int \<Rightarrow> bool" where
  "num_greater (PInt i) k = (i > k)"
| "num_greater NaN k = False"

subsection \<open>Dates: \<open>datetime.datetime.strptime(date, '%Y-%m-%d').date()\<close>\<close>

text \<open>
  A date is (year, month, day); \<open>\<le>\<close> on \<open>datetime.date\<close> is the order of the
  calendar, which on triples is the lexicographic one.
\<close>

type_synonym date = "nat \<times> nat \<times> nat"

fun date_le :: "date \<Rightarrow> date \<Rightarrow> bool" where
  "date_le (y1, m1, d1) (y2, m2, d2) =
     (y1 < y2 \<or> (y1 = y2 \<and> (m1 < m2 \<or> (m1 = m2 \<and> d1 \<le> d2))))"

definition is_leap :: "nat \<Rightarrow> bool" where
  "is_leap y = (y mod 4 = 0 \<and> (y mod 100 \<noteq> 0 \<or> y mod 400 = 0))"

definition days_in_month :: "nat \<Rightarrow> nat \<Rightarrow> nat" where
  "days_in_month y m =
     (if m = 2 then (if is_leap y then 29 else 28)
      else if m \<in> {4, 6, 9, 11} then 30 else 31)"

definition digit_nat :: "char \<Rightarrow> nat" where
  "digit_nat c = of_char c - 48"

text \<open>
  \<open>strptime\<close> turns the format into the regular expression
  \<^verbatim>\<open>(?P<Y>\d\d\d\d)-(?P<m>1[0-2]|0[1-9]|[1-9])-(?P<d>3[0-1]|[1-2]\d|0[1-9]|[1-9]| [1-9])\<close>
  and matches it at the start of the text. \<open>re_m\<close> and \<open>re_d\<close> list, in the order of
  the alternatives, the ways a group matches a prefix: the value read and the text left.
\<close>

definition in_range :: "char \<Rightarrow> nat \<Rightarrow> nat \<Rightarrow> bool" where
  "in_range c lo hi = (lo \<le> (of_char c :: nat) \<and> (of_char c :: nat) \<le> hi)"

definition re_m :: "string \<Rightarrow> (nat \<times> string) list" where
  "re_m s =
     (case s of
        a # b # r \<Rightarrow>
          (if a = CHR ''1'' \<and> in_range b 48 50 then [(10 + digit_nat b, r)] else []) @
          (if a = CHR ''0'' \<and> in_range b 49 57 then [(digit_nat b, r)] else []) @
          (if in_range a 49 57 then [(digit_nat a, b # r)] else [])
      | [a] \<Rightarrow> (if in_range a 49 57 then [(digit_nat a, [])] else [])
      | [] \<Rightarrow> [])"

definition re_d :: "string \<Rightarrow> (nat \<times> string) list" where
  "re_d s =
     (case s of
        a # b # r \<Rightarrow>
          (if a = CHR ''3'' \<and> in_range b 48 49 then [(30 + digit_nat b, r)] else []) @
          (if in_range a 49 50 \<and> is_digit b then [(10 * digit_nat a + digit_nat b, r)] else []) @
          (if a = CHR ''0'' \<and> in_range b 49 57 then [(digit_nat b, r)] else []) @
          (if in_range a 49 57 then [(digit_nat a, b # r)] else []) @
          (if a = CHR '' '' \<and> in_range b 49 57 then [(digit_nat b, r)] else [])
      | [a] \<Rightarrow> (if in_range a 49 57 then [(digit_nat a, [])] else [])
      | [] \<Rightarrow> [])"

text \<open>
  After a month alternative the pattern needs a hyphen and a day; the first month
  alternative for which that succeeds is taken, with the first day alternative that
  matches. The result is the three numbers and the text the match did not consume.
\<close>

fun match_md :: "nat \<Rightarrow> (nat \<times> string) list \<Rightarrow> (nat \<times> nat \<times> nat \<times> string) option" where
  "match_md y [] = None"
| "match_md y ((m, r) # alts) =
     (case r of
        c # r' \<Rightarrow>
          (if c = CHR ''-'' then
             (case re_d r' of
                (d, rest) # _ \<Rightarrow> Some (y, m, d, rest)
              | [] \<Rightarrow> match_md y alts)
           else match_md y alts)
      | [] \<Rightarrow> match_md y alts)"

definition match_ymd :: "string \<Rightarrow> (nat \<times> nat \<times> nat \<times> string) option" where
  "match_ymd s =
     (case s of
        a # b # c # d # h # r \<Rightarrow>
          if is_digit a \<and> is_digit b \<and> is_digit c \<and> is_digit d \<and> h = CHR ''-''
          then match_md (1000 * digit_nat a + 100 * digit_nat b + 10 * digit_nat c + digit_nat d)
                 (re_m r)
          else None
      | _ \<Rightarrow> None)"

text \<open>
  \<open>strptime\<close> raises \<open>ValueError\<close> when the text does not match, when text is left
  after the match, and when the numbers are not a date of the calendar (year 0, or a
  day the month does not have).
\<close>

definition strptime_ymd :: "string \<Rightarrow> error + date" where
  "strptime_ymd s =
     (case match_ymd s of
        None \<Rightarrow> Inl ValueError
      | Some (y, m, d, rest) \<Rightarrow>
          if rest \<noteq> [] then Inl ValueError
          else if y < 1 \<or> d > days_in_month y m then Inl ValueError
          else Inr (y, m, d))"

section \<open>The Lex request and response\<close>

text \<open>
  The event is a JSON object of fixed shape, so it is a record; \<open>currentIntent.slots\<close>
  and \<open>sessionAttributes\<close> are dictionaries. A slot's value is an optional text, and a
  slot name that the dictionary does not hold raises \<open>KeyError\<close> when it is read.
  \<open>sessionAttributes\<close> may be \<open>None\<close>; its values are texts, and the price the
  handler adds is an integer.
\<close>

type_synonym slots = "string \<rightharpoonup> string option"

datatype attribute = AStr string | AInt int

type_synonym session_attributes = "(string \<rightharpoonup> attribute) option"

record intent_request =
  userId :: string
  bot_name :: string
  invocationSource :: string
  currentIntent_name :: string
  currentIntent_slots :: slots
  sessionAttributes :: session_attributes

record message =
  contentType :: string
  content :: string

datatype dialog_action =
    ElicitSlot string slots string message
  | Close string message
  | Delegate slots

record response =
  response_sessionAttributes :: session_attributes
  dialogAction :: dialog_action

subsection \<open>Helpers to build responses\<close>

definition get_slots :: "intent_request \<Rightarrow> slots" where
  "get_slots intent_request = currentIntent_slots intent_request"

definition elicit_slot ::
  "session_attributes \<Rightarrow> string \<Rightarrow> slots \<Rightarrow> string \<Rightarrow> message \<Rightarrow> response" where
  "elicit_slot session_attributes intent_name slots slot_to_elicit msg =
     \<lparr>response_sessionAttributes = session_attributes,
      dialogAction = ElicitSlot intent_name slots slot_to_elicit msg\<rparr>"

definition close :: "session_attributes \<Rightarrow> string \<Rightarrow> message \<Rightarrow> response" where
  "close session_attributes fulfillment_state msg =
     \<lparr>response_sessionAttributes = session_attributes,
      dialogAction = Close fulfillment_state msg\<rparr>"

definition delegate :: "session_attributes \<Rightarrow> slots \<Rightarrow> response" where
  "delegate session_attributes slots =
     \<lparr>response_sessionAttributes = session_attributes,
      dialogAction = Delegate slots\<rparr>"

definition plain_text :: "string \<Rightarrow> message" where
  "plain_text c = \<lparr>contentType = ''PlainText'', content = c\<rparr>"

subsection \<open>Validation results\<close>

text \<open>
  The result dictionary has the keys \<open>isValid\<close> and \<open>violatedSlot\<close>, and the key
  \<open>message\<close> only when a message content was given: \<open>vr_message = None\<close> says that
  the dictionary has no such key, and reading it raises \<open>KeyError\<close>.
\<close>

record validation_result =
  isValid :: bool
  violatedSlot :: "string option"
  vr_message :: "message option"

definition build_validation_result ::
  "bool \<Rightarrow> string option \<Rightarrow> string option \<Rightarrow> validation_result" where
  "build_validation_result is_valid violated_slot message_content =
     (case message_content of
        None \<Rightarrow> \<lparr>isValid = is_valid, violatedSlot = violated_slot, vr_message = None\<rparr>
      | Some c \<Rightarrow>
          \<lparr>isValid = is_valid, violatedSlot = violated_slot, vr_message = Some (plain_text c)\<rparr>)"

definition get_message :: "validation_result \<Rightarrow> error + message" where
  "get_message validation_result =
     (case vr_message validation_result of
        None \<Rightarrow> Inl (KeyError ''message'')
      | Some m \<Rightarrow> Inr m)"

subsection \<open>What the handler reads from outside\<close>

text \<open>
  \<open>dateutil\<close> is a library outside the repository, and \<open>datetime.date.today()\<close> reads
  the clock (in the time zone the entry point sets). Both are parameters:
  \<open>dateutil_parse w s\<close> is \<open>None\<close> when \<open>dateutil.parser.parse(s)\<close> returns, and the
  exception it raises otherwise; nothing is assumed about which texts it accepts.
\<close>

record world =
  today :: date
  dateutil_parse :: "string \<Rightarrow> error option"

definition isvalid_date :: "world \<Rightarrow> string \<Rightarrow> error + bool" where
  "isvalid_date w date =
     (case dateutil_parse w date of
        None \<Rightarrow> Inr True
      | Some ValueError \<Rightarrow> Inr False
      | Some e \<Rightarrow> Inl e)"

section \<open>Validation rules\<close>

definition not_in :: "string option \<Rightarrow> string list \<Rightarrow> bool" where
  \<comment> \<open>\<open>v is not None and v.lower() not in allowed\<close>\<close>
  "not_in v allowed = (case v of None \<Rightarrow> False | Some s \<Rightarrow> lower s \<notin> set allowed)"

text \<open>
  The blocks of a validator that follow its first check return \<open>Some\<close> verdict when
  they return from the validator, and \<open>None\<close> when control falls through to the next
  block.
\<close>

definition check_pickup_date :: "world \<Rightarrow> string option \<Rightarrow> error + validation_result option" where
  "check_pickup_date w date =
     (case date of
        None \<Rightarrow> Inr None
      | Some d \<Rightarrow>
          bindE (isvalid_date w d) (\<lambda>ok.
            if \<not> ok then
              Inr (Some (build_validation_result False (Some ''PickupDate'')
                (Some ''I did not understand that, what date would you like to pick the flowers up?'')))
            else
              bindE (strptime_ymd d) (\<lambda>day.
                if date_le day (today w) then
                  Inr (Some (build_validation_result False (Some ''PickupDate'')
                    (Some ''You can pick up the flowers from tomorrow onwards.  What day would you like to pick them up?'')))
                else Inr None)))"

text \<open>
  \<open>hour, minute = pickup_time.split(':')\<close> raises \<open>ValueError\<close> unless the text has
  exactly one colon.
\<close>

definition check_pickup_time :: "string option \<Rightarrow> error + validation_result option" where
  "check_pickup_time pickup_time =
     (case pickup_time of
        None \<Rightarrow> Inr None
      | Some t \<Rightarrow>
          if length t \<noteq> 5 then
            Inr (Some (build_validation_result False (Some ''PickupTime'') None))
          else
            (case split CHR '':'' t of
               [h, m] \<Rightarrow>
                 (let hour = parse_int h; minute = parse_int m in
                  if isnan hour \<or> isnan minute then
                    Inr (Some (build_validation_result False (Some ''PickupTime'') None))
                  else if num_less hour 10 \<or> num_greater hour 16 then
                    Inr (Some (build_validation_result False (Some ''PickupTime'')
                      (Some ''Our business hours are from ten a m. to five p m. Can you specify a time during this range?'')))
                  else Inr None)
             | _ \<Rightarrow> Inl ValueError))"

definition flower_types :: "string list" where
  "flower_types = [''lilies'', ''roses'', ''tulips'']"

definition validate_order_flowers ::
  "world \<Rightarrow> string option \<Rightarrow> string option \<Rightarrow> string option \<Rightarrow> error + validation_result" where
  "validate_order_flowers w flower_type date pickup_time =
     (if not_in flower_type flower_types then
        Inr (build_validation_result False (Some ''FlowerType'')
          (Some (''We do not have '' @ format_arg flower_type @
                 '', would you like a different type of flower?  Our most popular flowers are roses'')))
      else
        bindE (check_pickup_date w date) (\<lambda>r1.
          case r1 of
            Some v \<Rightarrow> Inr v
          | None \<Rightarrow>
              bindE (check_pickup_time pickup_time) (\<lambda>r2.
                case r2 of
                  Some v \<Rightarrow> Inr v
                | None \<Rightarrow> Inr (build_validation_result True None None))))"

definition check_dining_time :: "string option \<Rightarrow> error + validation_result option" where
  "check_dining_time dining_time =
     (case dining_time of
        None \<Rightarrow> Inr None
      | Some t \<Rightarrow>
          if length t \<noteq> 5 then
            Inr (Some (build_validation_result False (Some ''DiningTime'') None))
          else
            (case split CHR '':'' t of
               [h, m] \<Rightarrow>
                 (let hour = parse_int h; minute = parse_int m in
                  if isnan hour \<or> isnan minute then
                    Inr (Some (build_validation_result False (Some ''DiningTime'') None))
                  else if num_less hour 17 \<or> num_greater hour 20 then
                    Inr (Some (build_validation_result False (Some ''DiningTime'')
                      (Some ''Most dining hours are from five p m. to eight p m. Can you specify a time during this range?'')))
                  else Inr None)
             | _ \<Rightarrow> Inl ValueError))"

definition cuisine_types :: "string list" where
  "cuisine_types = [''mexican'', ''thai'', ''chinese'', ''italian'', ''indian'']"

definition loc_types :: "string list" where
  "loc_types = [''manhattan'']"

definition validate_make_suggestions ::
  "string option \<Rightarrow> string option \<Rightarrow> string option \<Rightarrow> error + validation_result" where
  "validate_make_suggestions cuisine_type location dining_time =
     (if not_in cuisine_type cuisine_types then
        Inr (build_validation_result False (Some ''Cuisine'')
          (Some (''We do not have suggestions for '' @ format_arg cuisine_type @
                 '', would you like a Cuisine?  Our choices are Mexican, Indian, Thai, Chinese and Italian'')))
      else if not_in location loc_types then
        Inr (build_validation_result False (Some ''Location'')
          (Some (''We do not have suggestions for '' @ format_arg location @
                 ''. We currently only have suggestions for Manhattan.'')))
      else
        bindE (check_dining_time dining_time) (\<lambda>r.
          case r of
            Some v \<Rightarrow> Inr v
          | None \<Rightarrow> Inr (build_validation_result True None None)))"

section \<open>Functions that control the bot's behaviour\<close>

text \<open>
  A failed validation clears the violated slot in the request's own slot dictionary and
  passes that dictionary on; the model passes the updated map. Every failing verdict the
  validators build names a slot, so \<open>the\<close> is applied to \<open>Some\<close> name only.
\<close>

definition order_flowers :: "world \<Rightarrow> intent_request \<Rightarrow> error + response" where
  "order_flowers w intent_request =
     bindE (getitem (get_slots intent_request) ''FlowerType'') (\<lambda>flower_type.
     bindE (getitem (get_slots intent_request) ''PickupDate'') (\<lambda>date.
     bindE (getitem (get_slots intent_request) ''PickupTime'') (\<lambda>pickup_time.
       if invocationSource intent_request = ''DialogCodeHook'' then
         bindE (validate_order_flowers w flower_type date pickup_time) (\<lambda>validation_result.
           if \<not> isValid validation_result then
             (let slots = (get_slots intent_request)(the (violatedSlot validation_result) \<mapsto> None) in
              bindE (get_message validation_result) (\<lambda>msg.
                Inr (elicit_slot (sessionAttributes intent_request)
                       (currentIntent_name intent_request)
                       slots
                       (the (violatedSlot validation_result))
                       msg)))
           else
             (let output_session_attributes =
                    (case sessionAttributes intent_request of
                       Some a \<Rightarrow> a
                     | None \<Rightarrow> Map.empty);
                  output_session_attributes =
                    (case flower_type of
                       Some f \<Rightarrow> output_session_attributes(''Price'' \<mapsto> AInt (int (length f) * 5))
                     | None \<Rightarrow> output_session_attributes)
              in Inr (delegate (Some output_session_attributes) (get_slots intent_request))))
       else
         Inr (close (sessionAttributes intent_request) ''Fulfilled''
                (plain_text (''Thanks, your order for '' @ format_arg flower_type @
                             '' has been placed and will be ready for pickup by '' @
                             format_arg pickup_time @ '' on '' @ format_arg date))))))"

definition make_suggestions :: "intent_request \<Rightarrow> error + response" where
  "make_suggestions intent_request =
     bindE (getitem (get_slots intent_request) ''Cuisine'') (\<lambda>cuisine_type.
     bindE (getitem (get_slots intent_request) ''Location'') (\<lambda>location.
     bindE (getitem (get_slots intent_request) ''DiningTime'') (\<lambda>dining_time.
     bindE (getitem (get_slots intent_request) ''NumPeople'') (\<lambda>numPeople.
     bindE (getitem (get_slots intent_request) ''PhoneNumber'') (\<lambda>phoneNumber.
       if invocationSource intent_request = ''DialogCodeHook'' then
         bindE (validate_make_suggestions cuisine_type location dining_time) (\<lambda>validation_result.
           if \<not> isValid validation_result then
             (let slots = (get_slots intent_request)(the (violatedSlot validation_result) \<mapsto> None) in
              bindE (get_message validation_result) (\<lambda>msg.
                Inr (elicit_slot (sessionAttributes intent_request)
                       (currentIntent_name intent_request)
                       slots
                       (the (violatedSlot validation_result))
                       msg)))
           else
             (let output_session_attributes =
                    (case sessionAttributes intent_request of
                       Some a \<Rightarrow> a
                     | None \<Rightarrow> Map.empty)
              in Inr (delegate (Some output_session_attributes) (get_slots intent_request))))
       else
         Inr (close (sessionAttributes intent_request) ''Fulfilled''
                (plain_text (''Thanks an sms of suggestions for '' @ format_arg cuisine_type @
                             '' food in '' @ format_arg location @ '' at '' @
                             format_arg dining_time @ '' for '' @ format_arg numPeople @
                             '' people would be sent to '' @ format_arg phoneNumber @ ''.''))))))))"

section \<open>Intents\<close>

definition dispatch :: "world \<Rightarrow> intent_request \<Rightarrow> error + response" where
  "dispatch w intent_request =
     (let intent_name = currentIntent_name intent_request in
      if intent_name = ''OrderFlowers'' then order_flowers w intent_request
      else if intent_name = ''MakeGreeting'' then
        Inr (close (sessionAttributes intent_request) ''Fulfilled''
               (plain_text ''Hey there, how can I help you?''))
      else if intent_name = ''MakeThankYou'' then
        Inr (close (sessionAttributes intent_request) ''Fulfilled''
               (plain_text ''Thanks for coming!''))
      else if intent_name = ''MakeDiningSuggestions'' then make_suggestions intent_request
      else Inl (Exception (''Intent with name '' @ intent_name @ '' not supported'')))"

section \<open>Main handler\<close>

text \<open>
  For a \<open>Close\<close> response with any other content the handler splits the content into
  \<open>arr\<close> and then reads \<open>tArray[9]\<close>; no \<open>tArray\<close> is defined in the module, so
  the read raises \<open>NameError\<close>.
\<close>

definition lambda_handler :: "world \<Rightarrow> intent_request \<Rightarrow> error + response" where
  "lambda_handler w event =
     bindE (dispatch w event) (\<lambda>temp.
       case dialogAction temp of
         Close fulfillment_state msg \<Rightarrow>
           (let t = content msg in
            if t = ''Hey there, how can I help you?'' \<or> t = ''Thanks for coming!'' then Inr temp
            else Inl (NameError ''tArray''))
       | _ \<Rightarrow> Inr temp)"

section \<open>The rules of the specification\<close>

text \<open>
  The specification speaks of a present value that satisfies its rule. The rules of the
  enumerated values and of the times of day are stated here on their own, to be compared
  with what the validators compute: an enumerated value is in its allow-list after
  lower-casing; a time of day has five characters, one colon, an hour and a minute that
  are integers, and an hour inside the window. The minute is not bounded. An absent value
  satisfies every rule.
\<close>

definition satisfies :: "('a \<Rightarrow> bool) \<Rightarrow> 'a option \<Rightarrow> bool" where
  "satisfies rule v = (case v of None \<Rightarrow> True | Some x \<Rightarrow> rule x)"

definition allowed_rule :: "string list \<Rightarrow> string \<Rightarrow> bool" where
  "allowed_rule allowed s = (lower s \<in> set allowed)"

definition time_rule :: "int \<Rightarrow> int \<Rightarrow> string \<Rightarrow> bool" where
  "time_rule lo hi t =
     (length t = 5 \<and>
      (case split CHR '':'' t of
         [h, m] \<Rightarrow>
           (case (parse_int h, parse_int m) of
              (PInt hh, PInt mm) \<Rightarrow> lo \<le> hh \<and> hh \<le> hi
            | _ \<Rightarrow> False)
       | _ \<Rightarrow> False))"

section \<open>Properties of the blocks\<close>

lemmas handler_defs = order_flowers_def make_suggestions_def get_slots_def getitem_def bindE_def
  get_message_def build_validation_result_def elicit_slot_def close_def delegate_def plain_text_def

lemmas time_defs = check_pickup_time_def check_dining_time_def parse_int_def py_int_def strip_def
  is_space_def unsigned_def is_digit_def digit_val_def

lemmas validate_defs = validate_order_flowers_def validate_make_suggestions_def not_in_def
  check_pickup_date_def isvalid_date_def

lemmas strptime_defs = strptime_ymd_def match_ymd_def re_m_def re_d_def in_range_def
  digit_nat_def days_in_month_def is_leap_def

lemmas rule_defs = satisfies_def allowed_rule_def time_rule_def
  flower_types_def cuisine_types_def loc_types_def lower_def lower_char_def

lemma not_in_satisfies: "not_in v allowed = (\<not> satisfies (allowed_rule allowed) v)"
  by (simp add: not_in_def satisfies_def allowed_rule_def split: option.splits)

lemma check_pickup_time_pass:
  "satisfies (time_rule 10 16) t \<Longrightarrow> check_pickup_time t = Inr None"
  by (auto simp: satisfies_def time_rule_def check_pickup_time_def
      split: option.splits list.splits number.splits)

lemma check_dining_time_pass:
  "satisfies (time_rule 17 20) t \<Longrightarrow> check_dining_time t = Inr None"
  by (auto simp: satisfies_def time_rule_def check_dining_time_def
      split: option.splits list.splits number.splits)

text \<open>The two verdicts of the date block, and the slot every verdict of a block names.\<close>

lemma check_pickup_date_unparseable:
  "dateutil_parse w d = Some ValueError \<Longrightarrow>
   check_pickup_date w (Some d) = Inr (Some (build_validation_result False (Some ''PickupDate'')
     (Some ''I did not understand that, what date would you like to pick the flowers up?'')))"
  by (simp add: check_pickup_date_def isvalid_date_def bindE_def)

lemma check_pickup_date_not_later:
  "dateutil_parse w d = None \<Longrightarrow> strptime_ymd d = Inr day \<Longrightarrow> date_le day (today w) \<Longrightarrow>
   check_pickup_date w (Some d) = Inr (Some (build_validation_result False (Some ''PickupDate'')
     (Some ''You can pick up the flowers from tomorrow onwards.  What day would you like to pick them up?'')))"
  by (simp add: check_pickup_date_def isvalid_date_def bindE_def)

lemma check_pickup_date_slot:
  "check_pickup_date w date = Inr (Some v) \<Longrightarrow>
   violatedSlot v = Some ''PickupDate'' \<and> \<not> isValid v \<and> vr_message v \<noteq> None"
  by (auto simp: check_pickup_date_def isvalid_date_def bindE_def build_validation_result_def
      split: option.splits sum.splits if_splits error.splits)

lemma check_pickup_time_slot:
  "check_pickup_time t = Inr (Some v) \<Longrightarrow> violatedSlot v = Some ''PickupTime'' \<and> \<not> isValid v"
  by (auto simp: check_pickup_time_def build_validation_result_def Let_def
      split: option.splits list.splits if_splits)

lemma check_dining_time_slot:
  "check_dining_time t = Inr (Some v) \<Longrightarrow> violatedSlot v = Some ''DiningTime'' \<and> \<not> isValid v"
  by (auto simp: check_dining_time_def build_validation_result_def Let_def
      split: option.splits list.splits if_splits)

text \<open>
  A time of day whose length is not five, or whose hour or minute is not an integer,
  gets the verdict without a message.
\<close>

lemma check_pickup_time_length:
  "length t \<noteq> 5 \<Longrightarrow>
   check_pickup_time (Some t) = Inr (Some (build_validation_result False (Some ''PickupTime'') None))"
  by (simp add: check_pickup_time_def)

lemma check_pickup_time_not_numeric:
  "length t = 5 \<Longrightarrow> split CHR '':'' t = [h, m] \<Longrightarrow> parse_int h = NaN \<or> parse_int m = NaN \<Longrightarrow>
   check_pickup_time (Some t) = Inr (Some (build_validation_result False (Some ''PickupTime'') None))"
  by (auto simp: check_pickup_time_def)

lemma check_dining_time_length:
  "length t \<noteq> 5 \<Longrightarrow>
   check_dining_time (Some t) = Inr (Some (build_validation_result False (Some ''DiningTime'') None))"
  by (simp add: check_dining_time_def)

lemma check_dining_time_not_numeric:
  "length t = 5 \<Longrightarrow> split CHR '':'' t = [h, m] \<Longrightarrow> parse_int h = NaN \<or> parse_int m = NaN \<Longrightarrow>
   check_dining_time (Some t) = Inr (Some (build_validation_result False (Some ''DiningTime'') None))"
  by (auto simp: check_dining_time_def)

text \<open>
  Every failing verdict of a validator names a slot, so the handlers apply \<open>the\<close> to a
  \<open>Some\<close> only.
\<close>

lemma validate_order_flowers_names_slot:
  "validate_order_flowers w flower_type date pickup_time = Inr v \<Longrightarrow> \<not> isValid v \<Longrightarrow>
   violatedSlot v \<in> {Some ''FlowerType'', Some ''PickupDate'', Some ''PickupTime''}"
  using check_pickup_date_slot [of w date v] check_pickup_time_slot [of pickup_time v]
  by (auto simp: validate_order_flowers_def bindE_def build_validation_result_def
      split: if_splits sum.splits option.splits)

lemma validate_make_suggestions_names_slot:
  "validate_make_suggestions cuisine_type location dining_time = Inr v \<Longrightarrow> \<not> isValid v \<Longrightarrow>
   violatedSlot v \<in> {Some ''Cuisine'', Some ''Location'', Some ''DiningTime''}"
  using check_dining_time_slot [of dining_time v]
  by (auto simp: validate_make_suggestions_def bindE_def build_validation_result_def
      split: if_splits sum.splits option.splits)

text \<open>
  What the dialog turn of \<open>order_flowers\<close> does with a failing verdict: with a message
  it elicits the violated slot, the slot cleared and the rest of the request passed on;
  without a message, reading the key \<open>message\<close> raises.
\<close>

lemma order_flowers_elicits:
  assumes "invocationSource req = ''DialogCodeHook''"
    and "currentIntent_slots req ''FlowerType'' = Some flower_type"
    and "currentIntent_slots req ''PickupDate'' = Some date"
    and "currentIntent_slots req ''PickupTime'' = Some pickup_time"
    and "validate_order_flowers w flower_type date pickup_time = Inr v"
    and "\<not> isValid v" and "violatedSlot v = Some slot" and "vr_message v = Some msg"
  shows "order_flowers w req =
           Inr \<lparr>response_sessionAttributes = sessionAttributes req,
                dialogAction = ElicitSlot (currentIntent_name req)
                  ((currentIntent_slots req)(slot \<mapsto> None)) slot msg\<rparr>"
  using assms by (simp add: handler_defs)

lemma order_flowers_no_message:
  assumes "invocationSource req = ''DialogCodeHook''"
    and "currentIntent_slots req ''FlowerType'' = Some flower_type"
    and "currentIntent_slots req ''PickupDate'' = Some date"
    and "currentIntent_slots req ''PickupTime'' = Some pickup_time"
    and "validate_order_flowers w flower_type date pickup_time = Inr v"
    and "\<not> isValid v" and "vr_message v = None"
  shows "order_flowers w req = Inl (KeyError ''message'')"
  using assms by (simp add: handler_defs)

lemma make_suggestions_elicits:
  assumes "invocationSource req = ''DialogCodeHook''"
    and "currentIntent_slots req ''Cuisine'' = Some cuisine_type"
    and "currentIntent_slots req ''Location'' = Some location"
    and "currentIntent_slots req ''DiningTime'' = Some dining_time"
    and "currentIntent_slots req ''NumPeople'' = Some numPeople"
    and "currentIntent_slots req ''PhoneNumber'' = Some phoneNumber"
    and "validate_make_suggestions cuisine_type location dining_time = Inr v"
    and "\<not> isValid v" and "violatedSlot v = Some slot" and "vr_message v = Some msg"
  shows "make_suggestions req =
           Inr \<lparr>response_sessionAttributes = sessionAttributes req,
                dialogAction = ElicitSlot (currentIntent_name req)
                  ((currentIntent_slots req)(slot \<mapsto> None)) slot msg\<rparr>"
  using assms by (simp add: handler_defs)

lemma make_suggestions_no_message:
  assumes "invocationSource req = ''DialogCodeHook''"
    and "currentIntent_slots req ''Cuisine'' = Some cuisine_type"
    and "currentIntent_slots req ''Location'' = Some location"
    and "currentIntent_slots req ''DiningTime'' = Some dining_time"
    and "currentIntent_slots req ''NumPeople'' = Some numPeople"
    and "currentIntent_slots req ''PhoneNumber'' = Some phoneNumber"
    and "validate_make_suggestions cuisine_type location dining_time = Inr v"
    and "\<not> isValid v" and "vr_message v = None"
  shows "make_suggestions req = Inl (KeyError ''message'')"
  using assms by (simp add: handler_defs)

text \<open>
  The order of the checks, for the verdicts the blocks return: a value outside its
  allow-list gives the verdict of its slot whatever the later slots hold, and a verdict
  of a later block is returned as it is when the checks before it pass.
\<close>

lemma first_verdict_returned:
  "(not_in flower_type flower_types \<longrightarrow>
      validate_order_flowers w flower_type date pickup_time =
        Inr \<lparr>isValid = False, violatedSlot = Some ''FlowerType'',
             vr_message = Some \<lparr>contentType = ''PlainText'',
               content = ''We do not have '' @ format_arg flower_type @
                 '', would you like a different type of flower?  Our most popular flowers are roses''\<rparr>\<rparr>)
   \<and> (\<not> not_in flower_type flower_types \<and> check_pickup_date w date = Inr (Some v) \<longrightarrow>
      validate_order_flowers w flower_type date pickup_time = Inr v \<and>
      violatedSlot v = Some ''PickupDate'')
   \<and> (\<not> not_in flower_type flower_types \<and> check_pickup_date w date = Inr None \<and>
      check_pickup_time pickup_time = Inr (Some v) \<longrightarrow>
      validate_order_flowers w flower_type date pickup_time = Inr v \<and>
      violatedSlot v = Some ''PickupTime'')
   \<and> (not_in cuisine_type cuisine_types \<longrightarrow>
      validate_make_suggestions cuisine_type location dining_time =
        Inr \<lparr>isValid = False, violatedSlot = Some ''Cuisine'',
             vr_message = Some \<lparr>contentType = ''PlainText'',
               content = ''We do not have suggestions for '' @ format_arg cuisine_type @
                 '', would you like a Cuisine?  Our choices are Mexican, Indian, Thai, Chinese and Italian''\<rparr>\<rparr>)
   \<and> (\<not> not_in cuisine_type cuisine_types \<and> not_in location loc_types \<longrightarrow>
      validate_make_suggestions cuisine_type location dining_time =
        Inr \<lparr>isValid = False, violatedSlot = Some ''Location'',
             vr_message = Some \<lparr>contentType = ''PlainText'',
               content = ''We do not have suggestions for '' @ format_arg location @
                 ''. We currently only have suggestions for Manhattan.''\<rparr>\<rparr>)
   \<and> (\<not> not_in cuisine_type cuisine_types \<and> \<not> not_in location loc_types \<and>
      check_dining_time dining_time = Inr (Some v) \<longrightarrow>
      validate_make_suggestions cuisine_type location dining_time = Inr v \<and>
      violatedSlot v = Some ''DiningTime'')"
  using check_pickup_date_slot [of w date v] check_pickup_time_slot [of pickup_time v]
    check_dining_time_slot [of dining_time v]
  by (simp add: validate_order_flowers_def validate_make_suggestions_def bindE_def
      build_validation_result_def plain_text_def)

text \<open>
  When the allow-list checks, the date block and the time block pass, the validator
  returns the valid verdict; absent slots pass every check.
\<close>

lemma passing_checks_valid:
  "(satisfies (allowed_rule flower_types) flower_type \<and>
    check_pickup_date w date = Inr None \<and>
    satisfies (time_rule 10 16) pickup_time \<longrightarrow>
      validate_order_flowers w flower_type date pickup_time =
        Inr \<lparr>isValid = True, violatedSlot = None, vr_message = None\<rparr>)
   \<and> (satisfies (allowed_rule cuisine_types) cuisine_type \<and>
    satisfies (allowed_rule loc_types) location \<and>
    satisfies (time_rule 17 20) dining_time \<longrightarrow>
      validate_make_suggestions cuisine_type location dining_time =
        Inr \<lparr>isValid = True, violatedSlot = None, vr_message = None\<rparr>)"
  by (simp add: validate_order_flowers_def validate_make_suggestions_def not_in_satisfies
      check_pickup_time_pass check_dining_time_pass bindE_def build_validation_result_def)

lemma absent_slots_valid:
  "validate_order_flowers w None None None =
     Inr \<lparr>isValid = True, violatedSlot = None, vr_message = None\<rparr>
   \<and> validate_make_suggestions None None None =
     Inr \<lparr>isValid = True, violatedSlot = None, vr_message = None\<rparr>"
  by (simp add: validate_defs check_pickup_time_def check_dining_time_def bindE_def
      build_validation_result_def)

section \<open>The claims\<close>

text \<open>
  Claim C1. A dialog turn whose time slot is present but malformed should get an
  \<open>ElicitSlot\<close> response for the time slot, without a custom message, and should not
  raise. The validators return the verdict without a message, and the handlers then read
  the key \<open>message\<close> that the verdict does not have: at the time of day \<open>9:30\<close>
  (four characters), at \<open>9:3a\<close> (a minute that is not a number) and at the dining
  time \<open>930\<close> the handler raises \<open>KeyError\<close>.
\<close>

theorem malformed_time_raises:
  "order_flowers w \<lparr>userId = ''user'', bot_name = ''GetDinnerSuggestions'',
      invocationSource = ''DialogCodeHook'', currentIntent_name = ''OrderFlowers'',
      currentIntent_slots = [''FlowerType'' \<mapsto> None, ''PickupDate'' \<mapsto> None,
        ''PickupTime'' \<mapsto> Some ''9:30''],
      sessionAttributes = None\<rparr> = Inl (KeyError ''message'')
   \<and> order_flowers w \<lparr>userId = ''user'', bot_name = ''GetDinnerSuggestions'',
      invocationSource = ''DialogCodeHook'', currentIntent_name = ''OrderFlowers'',
      currentIntent_slots = [''FlowerType'' \<mapsto> None, ''PickupDate'' \<mapsto> None,
        ''PickupTime'' \<mapsto> Some ''9:3a''],
      sessionAttributes = None\<rparr> = Inl (KeyError ''message'')
   \<and> make_suggestions \<lparr>userId = ''user'', bot_name = ''GetDinnerSuggestions'',
      invocationSource = ''DialogCodeHook'', currentIntent_name = ''MakeDiningSuggestions'',
      currentIntent_slots = [''Cuisine'' \<mapsto> None, ''Location'' \<mapsto> None,
        ''DiningTime'' \<mapsto> Some ''930'', ''NumPeople'' \<mapsto> None, ''PhoneNumber'' \<mapsto> None],
      sessionAttributes = None\<rparr> = Inl (KeyError ''message'')"
  by (simp add: handler_defs time_defs validate_defs)

text \<open>
  Claim C2. Validation of a present date should never raise. The date block asks
  \<open>dateutil\<close> whether the text is a date and then parses it again with
  \<open>strptime\<close> and the format \<open>%Y-%m-%d\<close>, outside any handler of exceptions: for
  the month-only date \<open>2030-01\<close>, once \<open>dateutil\<close> accepts it, validation raises
  \<open>ValueError\<close>, whatever the time slot holds.
\<close>

theorem month_only_date_raises:
  "dateutil_parse w ''2030-01'' = None \<Longrightarrow>
   validate_order_flowers w None (Some ''2030-01'') pickup_time = Inl ValueError"
  by (simp add: validate_defs bindE_def strptime_defs is_digit_def)

theorem month_only_date_raises_witness:
  "validate_order_flowers \<lparr>today = (2026, 11, 4), dateutil_parse = (\<lambda>s. None)\<rparr>
     None (Some ''2030-01'') None = Inl ValueError"
  using month_only_date_raises [of "\<lparr>today = (2026, 11, 4), dateutil_parse = (\<lambda>s. None)\<rparr>" None]
  by simp

text \<open>
  Claim C3. On a fulfillment turn (the invocation source is not the dialog hook) a
  handler validates nothing: whatever the slots hold, and whatever the date parser and
  the clock say, it returns \<open>Close\<close> with the state \<open>Fulfilled\<close>. For OrderFlowers
  the message puts the flower type, the pickup time and the pickup date in that order.
  The request holds the slot names the handler reads.
\<close>

theorem fulfillment_turn_closes:
  "(invocationSource req \<noteq> ''DialogCodeHook'' \<and>
    currentIntent_slots req ''FlowerType'' = Some flower_type \<and>
    currentIntent_slots req ''PickupDate'' = Some date \<and>
    currentIntent_slots req ''PickupTime'' = Some pickup_time \<longrightarrow>
    order_flowers w req =
      Inr \<lparr>response_sessionAttributes = sessionAttributes req,
           dialogAction = Close ''Fulfilled''
             \<lparr>contentType = ''PlainText'',
              content = ''Thanks, your order for '' @ format_arg flower_type @
                '' has been placed and will be ready for pickup by '' @
                format_arg pickup_time @ '' on '' @ format_arg date\<rparr>\<rparr>)
   \<and> (invocationSource req \<noteq> ''DialogCodeHook'' \<and>
    currentIntent_slots req ''Cuisine'' = Some cuisine_type \<and>
    currentIntent_slots req ''Location'' = Some location \<and>
    currentIntent_slots req ''DiningTime'' = Some dining_time \<and>
    currentIntent_slots req ''NumPeople'' = Some numPeople \<and>
    currentIntent_slots req ''PhoneNumber'' = Some phoneNumber \<longrightarrow>
    make_suggestions req =
      Inr \<lparr>response_sessionAttributes = sessionAttributes req,
           dialogAction = Close ''Fulfilled''
             \<lparr>contentType = ''PlainText'',
              content = ''Thanks an sms of suggestions for '' @ format_arg cuisine_type @
                '' food in '' @ format_arg location @ '' at '' @ format_arg dining_time @
                '' for '' @ format_arg numPeople @ '' people would be sent to '' @
                format_arg phoneNumber @ ''.''\<rparr>\<rparr>)"
  by (simp add: handler_defs)

theorem fulfillment_turn_closes_witness:
  "order_flowers \<lparr>today = (2026, 11, 4), dateutil_parse = (\<lambda>s. None)\<rparr>
     \<lparr>userId = ''user'', bot_name = ''GetDinnerSuggestions'',
      invocationSource = ''FulfillmentCodeHook'', currentIntent_name = ''OrderFlowers'',
      currentIntent_slots = [''FlowerType'' \<mapsto> Some ''roses'', ''PickupDate'' \<mapsto> Some ''2999-01-01'',
        ''PickupTime'' \<mapsto> Some ''14:00''],
      sessionAttributes = None\<rparr> =
     Inr \<lparr>response_sessionAttributes = None,
          dialogAction = Close ''Fulfilled''
            \<lparr>contentType = ''PlainText'',
             content = ''Thanks, your order for roses has been placed and will be ready for pickup by 14:00 on 2999-01-01''\<rparr>\<rparr>
   \<and> order_flowers \<lparr>today = (2026, 11, 4), dateutil_parse = (\<lambda>s. None)\<rparr>
     \<lparr>userId = ''user'', bot_name = ''GetDinnerSuggestions'',
      invocationSource = ''FulfillmentCodeHook'', currentIntent_name = ''OrderFlowers'',
      currentIntent_slots = [''FlowerType'' \<mapsto> Some ''cactus'', ''PickupDate'' \<mapsto> None,
        ''PickupTime'' \<mapsto> Some ''25:00''],
      sessionAttributes = None\<rparr> =
     Inr \<lparr>response_sessionAttributes = None,
          dialogAction = Close ''Fulfilled''
            \<lparr>contentType = ''PlainText'',
             content = ''Thanks, your order for cactus has been placed and will be ready for pickup by 25:00 on None''\<rparr>\<rparr>
   \<and> make_suggestions
     \<lparr>userId = ''user'', bot_name = ''GetDinnerSuggestions'',
      invocationSource = ''FulfillmentCodeHook'', currentIntent_name = ''MakeDiningSuggestions'',
      currentIntent_slots = [''Cuisine'' \<mapsto> Some ''french'', ''Location'' \<mapsto> Some ''manhattan'',
        ''DiningTime'' \<mapsto> Some ''18:30'', ''NumPeople'' \<mapsto> Some ''4'',
        ''PhoneNumber'' \<mapsto> Some ''5555555555''],
      sessionAttributes = None\<rparr> =
     Inr \<lparr>response_sessionAttributes = None,
          dialogAction = Close ''Fulfilled''
            \<lparr>contentType = ''PlainText'',
             content = ''Thanks an sms of suggestions for french food in manhattan at 18:30 for 4 people would be sent to 5555555555.''\<rparr>\<rparr>"
  using fulfillment_turn_closes
    [of "\<lparr>userId = ''user'', bot_name = ''GetDinnerSuggestions'',
      invocationSource = ''FulfillmentCodeHook'', currentIntent_name = ''OrderFlowers'',
      currentIntent_slots = [''FlowerType'' \<mapsto> Some ''roses'', ''PickupDate'' \<mapsto> Some ''2999-01-01'',
        ''PickupTime'' \<mapsto> Some ''14:00''],
      sessionAttributes = None\<rparr>"
      "Some ''roses''" "Some ''2999-01-01''" "Some ''14:00''"
      "\<lparr>today = (2026, 11, 4), dateutil_parse = (\<lambda>s. None)\<rparr>"]
    fulfillment_turn_closes
    [of "\<lparr>userId = ''user'', bot_name = ''GetDinnerSuggestions'',
      invocationSource = ''FulfillmentCodeHook'', currentIntent_name = ''OrderFlowers'',
      currentIntent_slots = [''FlowerType'' \<mapsto> Some ''cactus'', ''PickupDate'' \<mapsto> None,
        ''PickupTime'' \<mapsto> Some ''25:00''],
      sessionAttributes = None\<rparr>"
      "Some ''cactus''" None "Some ''25:00''"
      "\<lparr>today = (2026, 11, 4), dateutil_parse = (\<lambda>s. None)\<rparr>"]
    fulfillment_turn_closes
    [of "\<lparr>userId = ''user'', bot_name = ''GetDinnerSuggestions'',
      invocationSource = ''FulfillmentCodeHook'', currentIntent_name = ''MakeDiningSuggestions'',
      currentIntent_slots = [''Cuisine'' \<mapsto> Some ''french'', ''Location'' \<mapsto> Some ''manhattan'',
        ''DiningTime'' \<mapsto> Some ''18:30'', ''NumPeople'' \<mapsto> Some ''4'',
        ''PhoneNumber'' \<mapsto> Some ''5555555555''],
      sessionAttributes = None\<rparr>"
      _ _ _ _ "Some ''french''" "Some ''manhattan''" "Some ''18:30''" "Some ''4''"
      "Some ''5555555555''"]
  by (simp add: format_arg_def)

text \<open>
  Claim C4. A dialog turn whose slots fail validation should get an \<open>ElicitSlot\<close>
  response that names the violated slot, with that slot cleared, the other slots as
  they were and the session attributes carried through. That is what the handlers
  return when the verdict has a message (\<open>order_flowers_elicits\<close>,
  \<open>make_suggestions_elicits\<close>). When the verdict has none, no response is
  returned: for the flower type \<open>roses\<close> and the pickup time \<open>noon\<close>, validation
  fails on the time and the handler raises \<open>KeyError\<close>.
\<close>

theorem failed_validation_not_elicited:
  "validate_order_flowers w (Some ''roses'') None (Some ''noon'') =
     Inr \<lparr>isValid = False, violatedSlot = Some ''PickupTime'', vr_message = None\<rparr>
   \<and> order_flowers w \<lparr>userId = ''user'', bot_name = ''GetDinnerSuggestions'',
      invocationSource = ''DialogCodeHook'', currentIntent_name = ''OrderFlowers'',
      currentIntent_slots = [''FlowerType'' \<mapsto> Some ''roses'', ''PickupDate'' \<mapsto> None,
        ''PickupTime'' \<mapsto> Some ''noon''],
      sessionAttributes = Some [''Price'' \<mapsto> AInt 25]\<rparr> = Inl (KeyError ''message'')"
  by (simp add: handler_defs time_defs validate_defs rule_defs)

text \<open>
  Claim C5. \<open>dispatch\<close> raises for an intent name that is none of OrderFlowers,
  MakeGreeting, MakeThankYou and MakeDiningSuggestions, and returns nothing then; for
  MakeGreeting and for MakeThankYou it returns a fixed \<open>Close\<close> message with the state
  \<open>Fulfilled\<close>, whatever the invocation source; OrderFlowers goes to
  \<open>order_flowers\<close> and MakeDiningSuggestions to \<open>make_suggestions\<close>.
\<close>

theorem dispatch_routes:
  "(currentIntent_name req \<notin>
      {''OrderFlowers'', ''MakeGreeting'', ''MakeThankYou'', ''MakeDiningSuggestions''} \<longrightarrow>
      dispatch w req =
        Inl (Exception (''Intent with name '' @ currentIntent_name req @ '' not supported'')))
   \<and> (currentIntent_name req = ''MakeGreeting'' \<longrightarrow>
      dispatch w req =
        Inr \<lparr>response_sessionAttributes = sessionAttributes req,
             dialogAction = Close ''Fulfilled''
               \<lparr>contentType = ''PlainText'', content = ''Hey there, how can I help you?''\<rparr>\<rparr>)
   \<and> (currentIntent_name req = ''MakeThankYou'' \<longrightarrow>
      dispatch w req =
        Inr \<lparr>response_sessionAttributes = sessionAttributes req,
             dialogAction = Close ''Fulfilled''
               \<lparr>contentType = ''PlainText'', content = ''Thanks for coming!''\<rparr>\<rparr>)
   \<and> (currentIntent_name req = ''OrderFlowers'' \<longrightarrow> dispatch w req = order_flowers w req)
   \<and> (currentIntent_name req = ''MakeDiningSuggestions'' \<longrightarrow>
      dispatch w req = make_suggestions req)"
  by (simp add: dispatch_def close_def plain_text_def)

theorem dispatch_routes_witness:
  "dispatch \<lparr>today = (2026, 11, 4), dateutil_parse = (\<lambda>s. None)\<rparr>
     \<lparr>userId = ''user'', bot_name = ''GetDinnerSuggestions'',
      invocationSource = ''DialogCodeHook'', currentIntent_name = ''BookHotel'',
      currentIntent_slots = Map.empty, sessionAttributes = None\<rparr> =
     Inl (Exception ''Intent with name BookHotel not supported'')
   \<and> dispatch \<lparr>today = (2026, 11, 4), dateutil_parse = (\<lambda>s. None)\<rparr>
     \<lparr>userId = ''user'', bot_name = ''GetDinnerSuggestions'',
      invocationSource = ''DialogCodeHook'', currentIntent_name = ''MakeGreeting'',
      currentIntent_slots = Map.empty, sessionAttributes = None\<rparr> =
     Inr \<lparr>response_sessionAttributes = None,
          dialogAction = Close ''Fulfilled''
            \<lparr>contentType = ''PlainText'', content = ''Hey there, how can I help you?''\<rparr>\<rparr>
   \<and> dispatch \<lparr>today = (2026, 11, 4), dateutil_parse = (\<lambda>s. None)\<rparr>
     \<lparr>userId = ''user'', bot_name = ''GetDinnerSuggestions'',
      invocationSource = ''FulfillmentCodeHook'', currentIntent_name = ''MakeThankYou'',
      currentIntent_slots = Map.empty, sessionAttributes = None\<rparr> =
     Inr \<lparr>response_sessionAttributes = None,
          dialogAction = Close ''Fulfilled''
            \<lparr>contentType = ''PlainText'', content = ''Thanks for coming!''\<rparr>\<rparr>
   \<and> dispatch \<lparr>today = (2026, 11, 4), dateutil_parse = (\<lambda>s. None)\<rparr>
     \<lparr>userId = ''user'', bot_name = ''GetDinnerSuggestions'',
      invocationSource = ''DialogCodeHook'', currentIntent_name = ''OrderFlowers'',
      currentIntent_slots = [''FlowerType'' \<mapsto> None, ''PickupDate'' \<mapsto> None,
        ''PickupTime'' \<mapsto> None],
      sessionAttributes = None\<rparr> =
     Inr \<lparr>response_sessionAttributes = Some Map.empty,
          dialogAction = Delegate [''FlowerType'' \<mapsto> None, ''PickupDate'' \<mapsto> None,
            ''PickupTime'' \<mapsto> None]\<rparr>
   \<and> dispatch \<lparr>today = (2026, 11, 4), dateutil_parse = (\<lambda>s. None)\<rparr>
     \<lparr>userId = ''user'', bot_name = ''GetDinnerSuggestions'',
      invocationSource = ''DialogCodeHook'', currentIntent_name = ''MakeDiningSuggestions'',
      currentIntent_slots = Map.empty, sessionAttributes = None\<rparr> =
     Inl (KeyError ''Cuisine'')"
  using dispatch_routes
    [of "\<lparr>userId = ''user'', bot_name = ''GetDinnerSuggestions'',
      invocationSource = ''DialogCodeHook'', currentIntent_name = ''BookHotel'',
      currentIntent_slots = Map.empty, sessionAttributes = None\<rparr>"
      "\<lparr>today = (2026, 11, 4), dateutil_parse = (\<lambda>s. None)\<rparr>"]
    dispatch_routes
    [of "\<lparr>userId = ''user'', bot_name = ''GetDinnerSuggestions'',
      invocationSource = ''DialogCodeHook'', currentIntent_name = ''MakeGreeting'',
      currentIntent_slots = Map.empty, sessionAttributes = None\<rparr>"
      "\<lparr>today = (2026, 11, 4), dateutil_parse = (\<lambda>s. None)\<rparr>"]
    dispatch_routes
    [of "\<lparr>userId = ''user'', bot_name = ''GetDinnerSuggestions'',
      invocationSource = ''FulfillmentCodeHook'', currentIntent_name = ''MakeThankYou'',
      currentIntent_slots = Map.empty, sessionAttributes = None\<rparr>"
      "\<lparr>today = (2026, 11, 4), dateutil_parse = (\<lambda>s. None)\<rparr>"]
    dispatch_routes
    [of "\<lparr>userId = ''user'', bot_name = ''GetDinnerSuggestions'',
      invocationSource = ''DialogCodeHook'', currentIntent_name = ''OrderFlowers'',
      currentIntent_slots = [''FlowerType'' \<mapsto> None, ''PickupDate'' \<mapsto> None,
        ''PickupTime'' \<mapsto> None],
      sessionAttributes = None\<rparr>"
      "\<lparr>today = (2026, 11, 4), dateutil_parse = (\<lambda>s. None)\<rparr>"]
    dispatch_routes
    [of "\<lparr>userId = ''user'', bot_name = ''GetDinnerSuggestions'',
      invocationSource = ''DialogCodeHook'', currentIntent_name = ''MakeDiningSuggestions'',
      currentIntent_slots = Map.empty, sessionAttributes = None\<rparr>"
      "\<lparr>today = (2026, 11, 4), dateutil_parse = (\<lambda>s. None)\<rparr>"]
  by (simp add: handler_defs validate_defs time_defs)

text \<open>
  Claim C6. The dialog turn of OrderFlowers with the slots FlowerType \<open>roses\<close>,
  PickupDate \<open>2999-01-01\<close> and PickupTime \<open>14:00\<close> returns \<open>Delegate\<close> with the
  slots as they came and the session attribute \<open>Price\<close> set to 25, when the date
  parser accepts the date and the clock reads a day before it. On every dialog turn
  whose validation succeeds and whose flower type is present, \<open>Price\<close> is set to the
  length of the flower type times 5 in the session attributes (an absent attribute
  dictionary counts as empty).
\<close>

theorem valid_dialog_turn_sets_price:
  "(invocationSource req = ''DialogCodeHook'' \<and>
    currentIntent_slots req =
      [''FlowerType'' \<mapsto> Some ''roses'', ''PickupDate'' \<mapsto> Some ''2999-01-01'',
       ''PickupTime'' \<mapsto> Some ''14:00''] \<and>
    dateutil_parse w ''2999-01-01'' = None \<and> \<not> date_le (2999, 1, 1) (today w) \<longrightarrow>
    order_flowers w req =
      Inr \<lparr>response_sessionAttributes =
             Some ((case sessionAttributes req of Some a \<Rightarrow> a | None \<Rightarrow> Map.empty)
                   (''Price'' \<mapsto> AInt 25)),
           dialogAction = Delegate (currentIntent_slots req)\<rparr>)
   \<and> (invocationSource req = ''DialogCodeHook'' \<and>
    currentIntent_slots req ''FlowerType'' = Some (Some f) \<and>
    currentIntent_slots req ''PickupDate'' = Some date \<and>
    currentIntent_slots req ''PickupTime'' = Some pickup_time \<and>
    validate_order_flowers w (Some f) date pickup_time = Inr v \<and> isValid v \<longrightarrow>
    order_flowers w req =
      Inr \<lparr>response_sessionAttributes =
             Some ((case sessionAttributes req of Some a \<Rightarrow> a | None \<Rightarrow> Map.empty)
                   (''Price'' \<mapsto> AInt (int (length f) * 5))),
           dialogAction = Delegate (currentIntent_slots req)\<rparr>)"
proof (rule conjI)
  show "invocationSource req = ''DialogCodeHook'' \<and>
    currentIntent_slots req =
      [''FlowerType'' \<mapsto> Some ''roses'', ''PickupDate'' \<mapsto> Some ''2999-01-01'',
       ''PickupTime'' \<mapsto> Some ''14:00''] \<and>
    dateutil_parse w ''2999-01-01'' = None \<and> \<not> date_le (2999, 1, 1) (today w) \<longrightarrow>
    order_flowers w req =
      Inr \<lparr>response_sessionAttributes =
             Some ((case sessionAttributes req of Some a \<Rightarrow> a | None \<Rightarrow> Map.empty)
                   (''Price'' \<mapsto> AInt 25)),
           dialogAction = Delegate (currentIntent_slots req)\<rparr>"
    by (clarsimp simp: handler_defs validate_defs time_defs strptime_defs rule_defs)
next
  show "invocationSource req = ''DialogCodeHook'' \<and>
    currentIntent_slots req ''FlowerType'' = Some (Some f) \<and>
    currentIntent_slots req ''PickupDate'' = Some date \<and>
    currentIntent_slots req ''PickupTime'' = Some pickup_time \<and>
    validate_order_flowers w (Some f) date pickup_time = Inr v \<and> isValid v \<longrightarrow>
    order_flowers w req =
      Inr \<lparr>response_sessionAttributes =
             Some ((case sessionAttributes req of Some a \<Rightarrow> a | None \<Rightarrow> Map.empty)
                   (''Price'' \<mapsto> AInt (int (length f) * 5))),
           dialogAction = Delegate (currentIntent_slots req)\<rparr>"
    by (clarsimp simp: handler_defs)
qed

theorem valid_dialog_turn_sets_price_witness:
  "order_flowers \<lparr>today = (2026, 11, 4), dateutil_parse = (\<lambda>s. None)\<rparr>
     \<lparr>userId = ''user'', bot_name = ''GetDinnerSuggestions'',
      invocationSource = ''DialogCodeHook'', currentIntent_name = ''OrderFlowers'',
      currentIntent_slots =
        [''FlowerType'' \<mapsto> Some ''roses'', ''PickupDate'' \<mapsto> Some ''2999-01-01'',
         ''PickupTime'' \<mapsto> Some ''14:00''],
      sessionAttributes = None\<rparr> =
     Inr \<lparr>response_sessionAttributes = Some [''Price'' \<mapsto> AInt 25],
          dialogAction = Delegate
            [''FlowerType'' \<mapsto> Some ''roses'', ''PickupDate'' \<mapsto> Some ''2999-01-01'',
             ''PickupTime'' \<mapsto> Some ''14:00'']\<rparr>
   \<and> order_flowers \<lparr>today = (2026, 11, 4), dateutil_parse = (\<lambda>s. None)\<rparr>
     \<lparr>userId = ''user'', bot_name = ''GetDinnerSuggestions'',
      invocationSource = ''DialogCodeHook'', currentIntent_name = ''OrderFlowers'',
      currentIntent_slots =
        [''FlowerType'' \<mapsto> Some ''tulips'', ''PickupDate'' \<mapsto> None, ''PickupTime'' \<mapsto> None],
      sessionAttributes = Some [''Greeting'' \<mapsto> AStr ''hello'']\<rparr> =
     Inr \<lparr>response_sessionAttributes =
            Some [''Greeting'' \<mapsto> AStr ''hello'', ''Price'' \<mapsto> AInt 30],
          dialogAction = Delegate
            [''FlowerType'' \<mapsto> Some ''tulips'', ''PickupDate'' \<mapsto> None, ''PickupTime'' \<mapsto> None]\<rparr>"
proof -
  let ?w = "\<lparr>today = (2026, 11, 4), dateutil_parse = (\<lambda>s. None)\<rparr>"
  have valid: "validate_order_flowers ?w (Some ''tulips'') None None =
      Inr \<lparr>isValid = True, violatedSlot = None, vr_message = None\<rparr>"
    by (simp add: validate_defs time_defs rule_defs bindE_def build_validation_result_def)
  show ?thesis
    using valid_dialog_turn_sets_price
      [of "\<lparr>userId = ''user'', bot_name = ''GetDinnerSuggestions'',
        invocationSource = ''DialogCodeHook'', currentIntent_name = ''OrderFlowers'',
        currentIntent_slots =
          [''FlowerType'' \<mapsto> Some ''roses'', ''PickupDate'' \<mapsto> Some ''2999-01-01'',
           ''PickupTime'' \<mapsto> Some ''14:00''],
        sessionAttributes = None\<rparr>" ?w]
      valid_dialog_turn_sets_price
      [of "\<lparr>userId = ''user'', bot_name = ''GetDinnerSuggestions'',
        invocationSource = ''DialogCodeHook'', currentIntent_name = ''OrderFlowers'',
        currentIntent_slots =
          [''FlowerType'' \<mapsto> Some ''tulips'', ''PickupDate'' \<mapsto> None, ''PickupTime'' \<mapsto> None],
        sessionAttributes = Some [''Greeting'' \<mapsto> AStr ''hello'']\<rparr>" ?w
        "''tulips''" None None "\<lparr>isValid = True, violatedSlot = None, vr_message = None\<rparr>"]
      valid
    by simp
qed

text \<open>
  Claim C7. A validator should run its checks in a fixed order and return the verdict of
  the first check that fails, so that of several invalid present values the earliest
  slot is named. For the verdicts the blocks return the order is the claimed one
  (\<open>first_verdict_returned\<close>). The date block, though, parses the date a second
  time with \<open>strptime\<close> and the format \<open>%Y-%m-%d\<close>, outside any handler of
  exceptions: with the flower type \<open>roses\<close>, the past month \<open>2020-01\<close> as the
  date and the time \<open>09:00\<close>, which is outside the business hours, two present values
  are invalid, and once \<open>dateutil\<close> accepts the date the validator names no slot: it
  raises \<open>ValueError\<close>.
\<close>

theorem invalid_date_names_no_slot:
  "dateutil_parse w ''2020-01'' = None \<Longrightarrow>
   \<not> satisfies (time_rule 10 16) (Some ''09:00'')
   \<and> validate_order_flowers w (Some ''roses'') (Some ''2020-01'') (Some ''09:00'') =
       Inl ValueError"
  by (simp add: validate_defs bindE_def strptime_defs time_defs rule_defs)

theorem invalid_date_names_no_slot_witness:
  "\<not> satisfies (time_rule 10 16) (Some ''09:00'')
   \<and> validate_order_flowers \<lparr>today = (2026, 11, 4), dateutil_parse = (\<lambda>s. None)\<rparr>
       (Some ''roses'') (Some ''2020-01'') (Some ''09:00'') = Inl ValueError"
  using invalid_date_names_no_slot [of "\<lparr>today = (2026, 11, 4), dateutil_parse = (\<lambda>s. None)\<rparr>"]
  by simp

text \<open>
  Claim C8. When every present value satisfies its rule, the validator should return
  the valid verdict, whichever slots are absent. It does so when the date block passes
  (\<open>passing_checks_valid\<close>, \<open>absent_slots_valid\<close>). The date block passes only
  dates that \<open>strptime\<close> reads with the format \<open>%Y-%m-%d\<close>: with the flower type
  \<open>roses\<close> and the time \<open>14:00\<close>, which satisfy their rules, and the coming month
  \<open>2030-01\<close> as the date, once \<open>dateutil\<close> accepts the date the validator returns
  no verdict: it raises \<open>ValueError\<close>.
\<close>

theorem coming_month_not_valid:
  "dateutil_parse w ''2030-01'' = None \<Longrightarrow>
   satisfies (allowed_rule flower_types) (Some ''roses'')
   \<and> satisfies (time_rule 10 16) (Some ''14:00'')
   \<and> validate_order_flowers w (Some ''roses'') (Some ''2030-01'') (Some ''14:00'') =
       Inl ValueError"
  by (simp add: validate_defs bindE_def strptime_defs time_defs rule_defs)

theorem coming_month_not_valid_witness:
  "satisfies (allowed_rule flower_types) (Some ''roses'')
   \<and> satisfies (time_rule 10 16) (Some ''14:00'')
   \<and> validate_order_flowers \<lparr>today = (2026, 11, 4), dateutil_parse = (\<lambda>s. None)\<rparr>
       (Some ''roses'') (Some ''2030-01'') (Some ''14:00'') = Inl ValueError"
  using coming_month_not_valid [of "\<lparr>today = (2026, 11, 4), dateutil_parse = (\<lambda>s. None)\<rparr>"]
  by simp

text \<open>
  Claim C9. When \<open>dispatch\<close> returns a \<open>Close\<close> response whose content is neither
  of the two fixed strings, \<open>lambda_handler\<close> does not return it: it raises
  \<open>NameError\<close> for the name \<open>tArray\<close>. Every fulfillment turn of OrderFlowers and
  of MakeDiningSuggestions whose request holds the slot names the handler reads is such
  a request.
\<close>

theorem lambda_handler_undefined_name:
  "(dispatch w event = Inr temp \<and> dialogAction temp = Close fulfillment_state msg \<and>
    content msg \<noteq> ''Hey there, how can I help you?'' \<and> content msg \<noteq> ''Thanks for coming!'' \<longrightarrow>
      lambda_handler w event = Inl (NameError ''tArray''))
   \<and> (currentIntent_name event = ''OrderFlowers'' \<and>
    invocationSource event \<noteq> ''DialogCodeHook'' \<and>
    currentIntent_slots event ''FlowerType'' = Some flower_type \<and>
    currentIntent_slots event ''PickupDate'' = Some date \<and>
    currentIntent_slots event ''PickupTime'' = Some pickup_time \<longrightarrow>
      lambda_handler w event = Inl (NameError ''tArray''))
   \<and> (currentIntent_name event = ''MakeDiningSuggestions'' \<and>
    invocationSource event \<noteq> ''DialogCodeHook'' \<and>
    currentIntent_slots event ''Cuisine'' = Some cuisine_type \<and>
    currentIntent_slots event ''Location'' = Some location \<and>
    currentIntent_slots event ''DiningTime'' = Some dining_time \<and>
    currentIntent_slots event ''NumPeople'' = Some numPeople \<and>
    currentIntent_slots event ''PhoneNumber'' = Some phoneNumber \<longrightarrow>
      lambda_handler w event = Inl (NameError ''tArray''))"
  by (simp add: lambda_handler_def dispatch_def handler_defs)

theorem lambda_handler_undefined_name_witness:
  "lambda_handler \<lparr>today = (2026, 11, 4), dateutil_parse = (\<lambda>s. None)\<rparr>
     \<lparr>userId = ''user'', bot_name = ''GetDinnerSuggestions'',
      invocationSource = ''FulfillmentCodeHook'', currentIntent_name = ''OrderFlowers'',
      currentIntent_slots = [''FlowerType'' \<mapsto> Some ''roses'', ''PickupDate'' \<mapsto> Some ''2999-01-01'',
        ''PickupTime'' \<mapsto> Some ''14:00''],
      sessionAttributes = None\<rparr> = Inl (NameError ''tArray'')
   \<and> lambda_handler \<lparr>today = (2026, 11, 4), dateutil_parse = (\<lambda>s. None)\<rparr>
     \<lparr>userId = ''user'', bot_name = ''GetDinnerSuggestions'',
      invocationSource = ''FulfillmentCodeHook'', currentIntent_name = ''MakeDiningSuggestions'',
      currentIntent_slots = [''Cuisine'' \<mapsto> Some ''thai'', ''Location'' \<mapsto> Some ''manhattan'',
        ''DiningTime'' \<mapsto> Some ''18:30'', ''NumPeople'' \<mapsto> Some ''4'',
        ''PhoneNumber'' \<mapsto> Some ''5555555555''],
      sessionAttributes = None\<rparr> = Inl (NameError ''tArray'')"
proof -
  let ?w = "\<lparr>today = (2026, 11, 4), dateutil_parse = (\<lambda>s. None)\<rparr>"
  let ?flowers = "\<lparr>userId = ''user'', bot_name = ''GetDinnerSuggestions'',
      invocationSource = ''FulfillmentCodeHook'', currentIntent_name = ''OrderFlowers'',
      currentIntent_slots = [''FlowerType'' \<mapsto> Some ''roses'', ''PickupDate'' \<mapsto> Some ''2999-01-01'',
        ''PickupTime'' \<mapsto> Some ''14:00''],
      sessionAttributes = None\<rparr>"
  let ?dining = "\<lparr>userId = ''user'', bot_name = ''GetDinnerSuggestions'',
      invocationSource = ''FulfillmentCodeHook'', currentIntent_name = ''MakeDiningSuggestions'',
      currentIntent_slots = [''Cuisine'' \<mapsto> Some ''thai'', ''Location'' \<mapsto> Some ''manhattan'',
        ''DiningTime'' \<mapsto> Some ''18:30'', ''NumPeople'' \<mapsto> Some ''4'',
        ''PhoneNumber'' \<mapsto> Some ''5555555555''],
      sessionAttributes = None\<rparr>"
  let ?msg = "\<lparr>contentType = ''PlainText'',
      content = ''Thanks, your order for roses has been placed and will be ready for pickup by 14:00 on 2999-01-01''\<rparr>"
  have closes: "dispatch ?w ?flowers =
      Inr \<lparr>response_sessionAttributes = None, dialogAction = Close ''Fulfilled'' ?msg\<rparr>"
    by (simp add: dispatch_def handler_defs format_arg_def)
  show ?thesis
    using lambda_handler_undefined_name
        [of ?w ?flowers "\<lparr>response_sessionAttributes = None, dialogAction = Close ''Fulfilled'' ?msg\<rparr>"
          "''Fulfilled''" ?msg "Some ''roses''" "Some ''2999-01-01''" "Some ''14:00''"]
      lambda_handler_undefined_name
        [of ?w ?dining _ _ _ _ _ _ "Some ''thai''" "Some ''manhattan''" "Some ''18:30''"
          "Some ''4''" "Some ''5555555555''"]
      closes
    by simp
qed

text \<open>
  Claim C10. The minute of a time slot is never checked against a range: a time of five
  characters with one colon, whose hour and minute are integers and whose hour is inside
  the window of the intent, passes for every value of the minute, the checks of the
  other slots passing. So \<open>14:99\<close> passes for OrderFlowers and \<open>18:99\<close> for
  MakeDiningSuggestions.
\<close>

theorem minute_not_range_checked:
  "length t = 5 \<Longrightarrow> split CHR '':'' t = [h, m] \<Longrightarrow> parse_int h = PInt hour \<Longrightarrow>
   parse_int m = PInt minute \<Longrightarrow>
   (10 \<le> hour \<and> hour \<le> 16 \<and> satisfies (allowed_rule flower_types) flower_type \<and>
    check_pickup_date w date = Inr None \<longrightarrow>
      validate_order_flowers w flower_type date (Some t) =
        Inr \<lparr>isValid = True, violatedSlot = None, vr_message = None\<rparr>)
   \<and> (17 \<le> hour \<and> hour \<le> 20 \<and> satisfies (allowed_rule cuisine_types) cuisine_type \<and>
    satisfies (allowed_rule loc_types) location \<longrightarrow>
      validate_make_suggestions cuisine_type location (Some t) =
        Inr \<lparr>isValid = True, violatedSlot = None, vr_message = None\<rparr>)"
  by (simp add: validate_order_flowers_def validate_make_suggestions_def not_in_satisfies
      check_pickup_time_def check_dining_time_def bindE_def build_validation_result_def)

theorem minute_not_range_checked_witness:
  "length ''14:99'' = 5 \<and> split CHR '':'' ''14:99'' = [''14'', ''99'']
   \<and> parse_int ''14'' = PInt 14 \<and> parse_int ''99'' = PInt 99
   \<and> validate_order_flowers \<lparr>today = (2026, 11, 4), dateutil_parse = (\<lambda>s. None)\<rparr>
       None None (Some ''14:99'') = Inr \<lparr>isValid = True, violatedSlot = None, vr_message = None\<rparr>
   \<and> split CHR '':'' ''18:99'' = [''18'', ''99''] \<and> parse_int ''18'' = PInt 18
   \<and> validate_make_suggestions None None (Some ''18:99'') =
       Inr \<lparr>isValid = True, violatedSlot = None, vr_message = None\<rparr>"
proof -
  let ?w = "\<lparr>today = (2026, 11, 4), dateutil_parse = (\<lambda>s. None)\<rparr>"
  have parts: "split CHR '':'' ''14:99'' = [''14'', ''99'']"
    "split CHR '':'' ''18:99'' = [''18'', ''99'']"
    "parse_int ''14'' = PInt 14" "parse_int ''18'' = PInt 18" "parse_int ''99'' = PInt 99"
    by (simp_all add: time_defs)
  have absent: "satisfies r None" for r :: "string \<Rightarrow> bool"
    by (simp add: satisfies_def)
  have no_date: "check_pickup_date ?w None = Inr None"
    by (simp add: check_pickup_date_def)
  show ?thesis
    using minute_not_range_checked [of "''14:99''" "''14''" "''99''" 14 99 None ?w None None None]
      minute_not_range_checked [of "''18:99''" "''18''" "''99''" 18 99 None ?w None None None]
      parts absent no_date
    by simp
qed

end
